theory Spec2Isabelle
  imports Main
begin

section \<open>Data model\<close>

text \<open>
  The three entities handled by \<^verbatim>\<open>api/v1/routes/wallet.py\<close>, with the fields the route
  module reads and writes. The enumerations carry the members it uses
  (\<^verbatim>\<open>TransactionType.DEPOSIT\<close>, \<^verbatim>\<open>TransactionStatus.PENDING\<close>, ...).
\<close>

datatype TransactionType = DEPOSIT | TRANSFER

datatype TransactionDirection = CREDIT | DEBIT

datatype TransactionStatus = PENDING | SUCCESS | FAILED

record wallet =
  w_id :: nat
  w_user_id :: nat
  wallet_number :: string
  balance :: int
  currency :: string

text \<open>
  The \<^verbatim>\<open>data\<close> object of a webhook payload: \<^verbatim>\<open>data.get(k)\<close> is \<open>None\<close> for an absent key.
  The payloads covered are those whose \<^verbatim>\<open>data\<close> is an object, whose reference and status
  are strings and whose amount is an integer, when they are present; the handler itself
  checks none of this.
\<close>

record event_data =
  ev_reference :: "string option"
  ev_amount :: "int option"
  ev_status :: "string option"

text \<open>The free-form \<^verbatim>\<open>extra\<close> column: the three shapes the routes store there.\<close>

datatype extra =
    NoExtra
  | RecipientWallet string
  | SenderWallet string
  | EventData event_data

record transaction =
  tx_id :: nat
  reference :: string
  tx_wallet_id :: nat
  tx_user_id :: nat
  tx_type :: TransactionType
  direction :: TransactionDirection
  amount :: int
  status :: TransactionStatus
  related_tx_id :: "nat option"
  extra :: extra

record payload =
  event :: "string option"
  data :: event_data

record webhook_log =
  provider :: string
  log_payload :: payload
  log_headers :: "(string \<times> string) list"
  processed :: bool

record user =
  user_id :: nat
  email :: string

section \<open>Store and unit of work\<close>

record db =
  wallets :: "wallet list"
  transactions :: "transaction list"
  webhook_logs :: "webhook_log list"

text \<open>
  A request runs in one SQLAlchemy session. \<open>working\<close> is what the session sees (flushed but
  possibly uncommitted rows), \<open>committed\<close> is the durable state, and \<open>history\<close> lists the
  snapshot made durable by each \<^verbatim>\<open>db.commit()\<close>, oldest first. Whatever is in \<open>working\<close>
  and not in \<open>committed\<close> when the handler leaves is lost with the session.
\<close>

record session =
  committed :: db
  working :: db
  history :: "db list"

definition begin_session :: "db \<Rightarrow> session" where
  "begin_session d = \<lparr>committed = d, working = d, history = []\<rparr>"

definition db_commit :: "session \<Rightarrow> session" where
  "db_commit s = s\<lparr>committed := working s, history := history s @ [working s]\<rparr>"

definition commit_if :: "bool \<Rightarrow> session \<Rightarrow> session" where
  "commit_if c s = (if c then db_commit s else s)"

text \<open>
  Modelled from the spec: \<^verbatim>\<open>fetch_one\<close> of the entity base class (\<^verbatim>\<open>api/v1/models/*.py\<close>,
  not among the sources). Following section 4.1 of the specification (\<^verbatim>\<open>get_wallet\<close>,
  \<^verbatim>\<open>find_transaction\<close>), it returns the first row matching the filter, if any, as the
  session sees it.
\<close>

definition wallet_by_user :: "session \<Rightarrow> nat \<Rightarrow> wallet option" where
  "wallet_by_user s u = find (\<lambda>w. w_user_id w = u) (wallets (working s))"

definition wallet_by_number :: "session \<Rightarrow> string \<Rightarrow> wallet option" where
  "wallet_by_number s n = find (\<lambda>w. wallet_number w = n) (wallets (working s))"

definition wallet_by_id :: "session \<Rightarrow> nat \<Rightarrow> wallet option" where
  "wallet_by_id s i = find (\<lambda>w. w_id w = i) (wallets (working s))"

definition transaction_by_reference :: "session \<Rightarrow> string \<Rightarrow> transaction option" where
  "transaction_by_reference s r = find (\<lambda>t. reference t = r) (transactions (working s))"

text \<open>
  Modelled from the spec: \<^verbatim>\<open>insert\<close> and \<^verbatim>\<open>update\<close> of the entity base class
  (\<^verbatim>\<open>api/v1/models/*.py\<close>, not among the sources). Following sections 4.1 and 6 of the
  specification, \<^verbatim>\<open>insert\<close> appends a row and \<^verbatim>\<open>update\<close> writes the object back to the
  row with its primary key, each followed by a commit unless called with
  \<^verbatim>\<open>commit=False\<close>. An inserted object has its row id.
\<close>

definition put_wallet :: "wallet \<Rightarrow> wallet list \<Rightarrow> wallet list" where
  "put_wallet w ws = map (\<lambda>x. if w_id x = w_id w then w else x) ws"

definition put_transaction :: "transaction \<Rightarrow> transaction list \<Rightarrow> transaction list" where
  "put_transaction t ts = map (\<lambda>x. if tx_id x = tx_id t then t else x) ts"

definition wallet_update :: "wallet \<Rightarrow> bool \<Rightarrow> session \<Rightarrow> session" where
  "wallet_update w c s =
     commit_if c (s\<lparr>working := (working s)\<lparr>wallets := put_wallet w (wallets (working s))\<rparr>\<rparr>)"

definition transaction_insert :: "transaction \<Rightarrow> bool \<Rightarrow> session \<Rightarrow> session" where
  "transaction_insert t c s =
     commit_if c (s\<lparr>working := (working s)\<lparr>transactions := transactions (working s) @ [t]\<rparr>\<rparr>)"

definition transaction_update :: "transaction \<Rightarrow> bool \<Rightarrow> session \<Rightarrow> session" where
  "transaction_update t c s =
     commit_if c (s\<lparr>working :=
       (working s)\<lparr>transactions := put_transaction t (transactions (working s))\<rparr>\<rparr>)"

definition webhook_log_insert :: "webhook_log \<Rightarrow> bool \<Rightarrow> session \<Rightarrow> session" where
  "webhook_log_insert l c s =
     commit_if c (s\<lparr>working := (working s)\<lparr>webhook_logs := webhook_logs (working s) @ [l]\<rparr>\<rparr>)"

text \<open>
  When an object gets its id is decided by the entity declaration, which is not among the
  sources, and is a parameter of the model: the constructor assigns it, or the insert
  does. The route modules read an id after the insert of its object (\<^verbatim>\<open>debit_tx.id\<close> at
  wallet.py line 291, \<^verbatim>\<open>user.id\<close> at auth.py line 97), with one exception,
  \<^verbatim>\<open>credit_tx.id\<close> at wallet.py line 292. \<open>id_before_insert ids n\<close> is what \<^verbatim>\<open>.id\<close> reads
  on an object that is not inserted yet and whose row will have the id \<open>n\<close>.
\<close>

datatype id_assignment = OnConstruction | OnInsert

definition id_before_insert :: "id_assignment \<Rightarrow> nat \<Rightarrow> nat option" where
  "id_before_insert ids n = (case ids of OnConstruction \<Rightarrow> Some n | OnInsert \<Rightarrow> None)"

text \<open>
  \<^verbatim>\<open>webhook_log.processed = True\<close>: an attribute write on the log object of this request,
  which is the row the session appended last.
\<close>

fun flag_last :: "webhook_log list \<Rightarrow> webhook_log list" where
  "flag_last [] = []"
| "flag_last [l] = [l\<lparr>processed := True\<rparr>]"
| "flag_last (l # ls) = l # flag_last ls"

definition set_processed :: "session \<Rightarrow> session" where
  "set_processed s = s\<lparr>working := (working s)\<lparr>webhook_logs := flag_last (webhook_logs (working s))\<rparr>\<rparr>"

datatype exn =
    HTTPException nat string
  | InsufficientFunds
  | TypeError

text \<open>
  Modelled from the spec: \<^verbatim>\<open>Wallet.credit\<close> and \<^verbatim>\<open>Wallet.debit\<close>
  (\<^verbatim>\<open>api/v1/models/wallet.py\<close>, not among the sources). Following section 4.1 of the
  specification they are in-memory mutations of the balance, and \<^verbatim>\<open>debit\<close> fails when the
  resulting balance would be negative.
\<close>

definition credit :: "wallet \<Rightarrow> int \<Rightarrow> wallet" where
  "credit w a = w\<lparr>balance := balance w + a\<rparr>"

definition debit :: "wallet \<Rightarrow> int \<Rightarrow> exn + wallet" where
  "debit w a = (if balance w - a < 0 then Inl InsufficientFunds else Inr (w\<lparr>balance := balance w - a\<rparr>))"

section \<open>Responses\<close>

datatype response_data =
    DepositData string "string option"
  | TransferData string int string

text \<open>
  \<open>fail_response code message balance required\<close> is the returned (not raised) failure body
  with its \<^verbatim>\<open>context\<close>; \<open>status_true\<close> is the webhook acknowledgement \<^verbatim>\<open>{"status": True}\<close>.
\<close>

datatype response =
    success_response nat string response_data
  | fail_response nat string int int
  | status_true

section \<open>Transfer\<close>

record TransferRequest =
  tr_wallet_number :: string
  tr_amount :: int

text \<open>
  \<^verbatim>\<open>transfer_funds\<close> (wallet.py, lines 227-312). \<open>hex16\<close> is \<^verbatim>\<open>uuid.uuid4().hex[:16]\<close>;
  \<open>debit_id\<close> and \<open>credit_id\<close> are the ids of the two rows. Line 290 inserts the
  debit draft; line 291 reads \<^verbatim>\<open>debit_tx.id\<close>, the id of an inserted object; line 292 reads
  \<^verbatim>\<open>credit_tx.id\<close> while the credit draft is not inserted (line 299 does that), and writes
  it to a row the session already holds. A failed balance check is answered with a
  returned \<^verbatim>\<open>fail_response\<close>, every other failure is raised.
\<close>

definition transfer_funds ::
  "id_assignment \<Rightarrow> TransferRequest \<Rightarrow> user \<Rightarrow> string \<Rightarrow> nat \<Rightarrow> nat \<Rightarrow> db \<Rightarrow>
   (exn + response) \<times> session" where
  "transfer_funds ids request usr hex16 debit_id credit_id d =
    (let s = begin_session d in
     if tr_amount request \<le> 0 then (Inl (HTTPException 400 ''Invalid amount''), s)
     else (case wallet_by_user s (user_id usr) of
       None \<Rightarrow> (Inl (HTTPException 404 ''Sender wallet not found''), s)
     | Some sender_wallet \<Rightarrow>
       if balance sender_wallet < tr_amount request then
         (Inr (fail_response 400 ''Insufficient balance''
                 (balance sender_wallet) (tr_amount request)), s)
       else (case wallet_by_number s (tr_wallet_number request) of
         None \<Rightarrow> (Inl (HTTPException 404 ''Recipient wallet not found''), s)
       | Some recipient_wallet \<Rightarrow>
         if w_id recipient_wallet = w_id sender_wallet then
           (Inl (HTTPException 400 ''Cannot transfer to self''), s)
         else
           (let ref = ''txf_'' @ hex16;
               debit_tx = \<lparr>tx_id = debit_id, reference = ref @ ''_debit'',
                           tx_wallet_id = w_id sender_wallet, tx_user_id = user_id usr,
                           tx_type = TRANSFER, direction = DEBIT,
                           amount = tr_amount request, status = SUCCESS,
                           related_tx_id = None,
                           extra = RecipientWallet (tr_wallet_number request)\<rparr>;
               credit_tx = \<lparr>tx_id = credit_id, reference = ref @ ''_credit'',
                            tx_wallet_id = w_id recipient_wallet,
                            tx_user_id = w_user_id recipient_wallet,
                            tx_type = TRANSFER, direction = CREDIT,
                            amount = tr_amount request, status = SUCCESS,
                            related_tx_id = None,
                            extra = SenderWallet (wallet_number sender_wallet)\<rparr>;
               s1 = transaction_insert debit_tx False s;
               credit_tx = credit_tx\<lparr>related_tx_id := Some (tx_id debit_tx)\<rparr>;
               debit_tx = debit_tx\<lparr>related_tx_id := id_before_insert ids (tx_id credit_tx)\<rparr>;
               s2 = transaction_update debit_tx False s1
           in (case debit sender_wallet (tr_amount request) of
                Inl e \<Rightarrow> (Inl e, s2)
              | Inr sender_wallet' \<Rightarrow>
                  (let recipient_wallet' = credit recipient_wallet (tr_amount request);
                      s3 = transaction_insert credit_tx False s2;
                      s4 = wallet_update sender_wallet' False s3;
                      s5 = wallet_update recipient_wallet' False s4;
                      s6 = db_commit s5
                  in (Inr (success_response 200 ''Transfer completed''
                             (TransferData ref (tr_amount request)
                                (tr_wallet_number request))),
                      s6)))))))"

section \<open>Webhook reconciliation\<close>

record webhook_request =
  req_headers :: "(string \<times> string) list"
  req_body :: string
  req_json :: payload

text \<open>
  The \<^verbatim>\<open>charge.success\<close> branch of \<^verbatim>\<open>paystack_webhook\<close> (wallet.py, lines 122-160), entered
  with the log row already added to the session. \<^verbatim>\<open>not reference\<close> holds for an absent and
  for an empty reference. \<^verbatim>\<open>wallet.credit(amount)\<close> with an absent amount adds \<^verbatim>\<open>None\<close> to an
  integer, which raises; nothing has been committed by then.
\<close>

definition charge_success :: "event_data \<Rightarrow> session \<Rightarrow> (exn + response) \<times> session" where
  "charge_success dat s1 =
    (case ev_reference dat of
       None \<Rightarrow> (Inr status_true, db_commit (set_processed s1))
     | Some r \<Rightarrow>
       if r = [] then (Inr status_true, db_commit (set_processed s1))
       else (case transaction_by_reference s1 r of
         None \<Rightarrow> (Inr status_true, db_commit (set_processed s1))
       | Some tx \<Rightarrow>
         if status tx = SUCCESS then (Inr status_true, db_commit (set_processed s1))
         else if ev_status dat = Some ''success'' then
           (let tx' = tx\<lparr>status := SUCCESS, extra := EventData dat\<rparr> in
            (case wallet_by_id s1 (tx_wallet_id tx') of
               None \<Rightarrow>
                 (Inr status_true,
                  db_commit (set_processed (transaction_update tx' False s1)))
             | Some w \<Rightarrow>
               (case ev_amount dat of
                  None \<Rightarrow> (Inl TypeError, s1)
                | Some a \<Rightarrow>
                  (let w' = credit w a;
                       s2 = wallet_update w' False s1;
                       s3 = transaction_update tx' False s2
                   in (Inr status_true, db_commit (set_processed s3))))))
         else (Inr status_true, db_commit (set_processed s1))))"

text \<open>
  \<^verbatim>\<open>paystack_webhook\<close> (wallet.py, lines 87-162). \<open>verify_paystack_signature\<close> lives in
  \<^verbatim>\<open>api/utils/paystack.py\<close>, which is not among the sources, and is a parameter.
\<close>

definition paystack_webhook ::
  "(string \<Rightarrow> string \<Rightarrow> bool) \<Rightarrow> webhook_request \<Rightarrow> db \<Rightarrow> (exn + response) \<times> session" where
  "paystack_webhook verify_paystack_signature request d =
    (let s = begin_session d in
     (case map_of (req_headers request) ''x-paystack-signature'' of
        None \<Rightarrow> (Inl (HTTPException 400 ''Missing signature''), s)
      | Some signature \<Rightarrow>
        if signature = [] then (Inl (HTTPException 400 ''Missing signature''), s)
        else if \<not> verify_paystack_signature (req_body request) signature then
          (Inl (HTTPException 401 ''Invalid signature''), s)
        else
          (let pl = req_json request;
               wl = \<lparr>provider = ''paystack'', log_payload = pl,
                     log_headers = req_headers request, processed = False\<rparr>;
               s1 = webhook_log_insert wl False s
           in if event pl = Some ''charge.success'' then charge_success (data pl) s1
              else (Inr status_true, s1))))"

section \<open>Deposit initiation\<close>

record DepositRequest =
  dr_amount :: int

text \<open>
  What the awaited gateway call does: it raises, or it returns a body whose \<^verbatim>\<open>status\<close> is
  truthy or not, with the \<^verbatim>\<open>authorization_url\<close> of its \<^verbatim>\<open>data\<close>.
\<close>

datatype gateway_exn = GatewayError string

datatype gateway_result =
    Raised gateway_exn
  | Returned bool "string option"

text \<open>The exception caught by \<^verbatim>\<open>except Exception as e\<close> at line 80.\<close>

datatype caught =
    FromGateway gateway_exn
  | FromHandler exn

text \<open>
  \<^verbatim>\<open>deposit_to_wallet\<close> (wallet.py, lines 27-84). \<open>initialize_transaction\<close> is the gateway
  client and \<open>str\<close> renders the caught exception (\<^verbatim>\<open>str(e)\<close>); both are parameters.
  \<open>hex16\<close> is \<^verbatim>\<open>uuid.uuid4().hex[:16]\<close> and \<open>new_id\<close> the id of the new row.
\<close>

definition deposit_failed ::
  "(caught \<Rightarrow> string) \<Rightarrow> caught \<Rightarrow> transaction \<Rightarrow> session \<Rightarrow> (exn + response) \<times> session" where
  "deposit_failed str e tx s1 =
     (Inl (HTTPException 500 (''Payment initialization failed: '' @ str e)),
      transaction_update (tx\<lparr>status := FAILED\<rparr>) True s1)"

definition deposit_to_wallet ::
  "(string \<Rightarrow> int \<Rightarrow> string \<Rightarrow> gateway_result) \<Rightarrow> (caught \<Rightarrow> string) \<Rightarrow>
   DepositRequest \<Rightarrow> user \<Rightarrow> string \<Rightarrow> nat \<Rightarrow> db \<Rightarrow> (exn + response) \<times> session" where
  "deposit_to_wallet initialize_transaction str request usr hex16 new_id d =
    (let s = begin_session d in
     if dr_amount request < 100 then
       (Inl (HTTPException 400 ''Minimum deposit is 100 kobo (1 NGN)''), s)
     else (case wallet_by_user s (user_id usr) of
       None \<Rightarrow> (Inl (HTTPException 404 ''Wallet not found''), s)
     | Some w \<Rightarrow>
       (let ref = ''dep_'' @ hex16;
            tx = \<lparr>tx_id = new_id, reference = ref, tx_wallet_id = w_id w,
                  tx_user_id = user_id usr, tx_type = DEPOSIT, direction = CREDIT,
                  amount = dr_amount request, status = PENDING,
                  related_tx_id = None, extra = NoExtra\<rparr>;
            s1 = transaction_insert tx True s
        in (case initialize_transaction (email usr) (dr_amount request) ref of
              Raised e \<Rightarrow> deposit_failed str (FromGateway e) tx s1
            | Returned ok url \<Rightarrow>
              if \<not> ok then
                deposit_failed str
                  (FromHandler (HTTPException 500 ''Failed to initialize payment'')) tx s1
              else (Inr (success_response 200 ''Deposit initialized'' (DepositData ref url)),
                    s1)))))"

section \<open>Operation sequences\<close>

datatype operation =
    Deposit DepositRequest user string nat gateway_result
  | Webhook webhook_request
  | Transfer id_assignment TransferRequest user string nat nat

text \<open>One request against the durable state: the session it leaves behind.\<close>

fun exec_op :: "(string \<Rightarrow> string \<Rightarrow> bool) \<Rightarrow> (caught \<Rightarrow> string) \<Rightarrow> operation \<Rightarrow> db \<Rightarrow> session" where
  "exec_op vf str (Deposit rq u h i g) d = snd (deposit_to_wallet (\<lambda>_ _ _. g) str rq u h i d)"
| "exec_op vf str (Webhook rq) d = snd (paystack_webhook vf rq d)"
| "exec_op vf str (Transfer ids rq u h i j) d = snd (transfer_funds ids rq u h i j d)"

text \<open>
  Every snapshot committed while a sequence of requests runs, oldest first; each request
  starts from the durable state the previous one left.
\<close>

fun commit_points :: "(string \<Rightarrow> string \<Rightarrow> bool) \<Rightarrow> (caught \<Rightarrow> string) \<Rightarrow> operation list \<Rightarrow> db \<Rightarrow> db list" where
  "commit_points vf str [] d = []"
| "commit_points vf str (x # xs) d =
     (let s = exec_op vf str x d in history s @ commit_points vf str xs (committed s))"

definition balances_nonneg :: "db \<Rightarrow> bool" where
  "balances_nonneg d = list_all (\<lambda>w. 0 \<le> balance w) (wallets d)"

text \<open>The signature check of \<^verbatim>\<open>paystack_webhook\<close> (lines 94-104) as a predicate on requests.\<close>

definition signature_accepted :: "(string \<Rightarrow> string \<Rightarrow> bool) \<Rightarrow> webhook_request \<Rightarrow> bool" where
  "signature_accepted vf rq =
     (case map_of (req_headers rq) ''x-paystack-signature'' of
        None \<Rightarrow> False
      | Some sg \<Rightarrow> sg \<noteq> [] \<and> vf (req_body rq) sg)"

text \<open>A webhook request whose event amount, when present, is not negative.\<close>

fun nonneg_event :: "operation \<Rightarrow> bool" where
  "nonneg_event (Webhook rq) =
     (case ev_amount (data (req_json rq)) of None \<Rightarrow> True | Some a \<Rightarrow> 0 \<le> a)"
| "nonneg_event _ = True"

section \<open>Example ledger\<close>

text \<open>
  The scenario of the specification: wallet A holds 5000 minor units, wallet B holds
  nothing and has the wallet number \<^verbatim>\<open>B-001\<close>.
\<close>

definition wallet_A :: wallet where
  "wallet_A = \<lparr>w_id = 1, w_user_id = 10, wallet_number = ''A-001'', balance = 5000,
               currency = ''NGN''\<rparr>"

definition wallet_B :: wallet where
  "wallet_B = \<lparr>w_id = 2, w_user_id = 20, wallet_number = ''B-001'', balance = 0,
               currency = ''NGN''\<rparr>"

definition user_A :: user where
  "user_A = \<lparr>user_id = 10, email = ''a@example.com''\<rparr>"

definition ledger0 :: db where
  "ledger0 = \<lparr>wallets = [wallet_A, wallet_B], transactions = [], webhook_logs = []\<rparr>"

definition user_B :: user where
  "user_B = \<lparr>user_id = 20, email = ''b@example.com''\<rparr>"

text \<open>The ledger with wallet B overdrawn by 700.\<close>

definition ledger_overdrawn :: db where
  "ledger_overdrawn = \<lparr>wallets = [wallet_A, wallet_B\<lparr>balance := - 700\<rparr>],
     transactions = [], webhook_logs = []\<rparr>"

definition to_wallet :: "string \<Rightarrow> int \<Rightarrow> TransferRequest" where
  "to_wallet n a = \<lparr>tr_wallet_number = n, tr_amount = a\<rparr>"

text \<open>
  A deposit of 500 into wallet B that waits for its confirmation, the same deposit after a
  failed initiation, and signed webhook requests: \<open>accept_sig\<close> stands for a verifier
  that accepts the signature \<^verbatim>\<open>sig\<close>.
\<close>

definition pending_deposit :: transaction where
  "pending_deposit = \<lparr>tx_id = 5, reference = ''dep_00aa'', tx_wallet_id = 2, tx_user_id = 20,
     tx_type = DEPOSIT, direction = CREDIT, amount = 500, status = PENDING,
     related_tx_id = None, extra = NoExtra\<rparr>"

definition ledger1 :: db where
  "ledger1 = \<lparr>wallets = [wallet_A, wallet_B], transactions = [pending_deposit],
               webhook_logs = []\<rparr>"

definition ledger_failed :: db where
  "ledger_failed = \<lparr>wallets = [wallet_A, wallet_B],
     transactions = [pending_deposit\<lparr>status := FAILED\<rparr>], webhook_logs = []\<rparr>"

definition accept_sig :: "string \<Rightarrow> string \<Rightarrow> bool" where
  "accept_sig body sg = (sg = ''sig'')"

definition signed :: "payload \<Rightarrow> webhook_request" where
  "signed pl = \<lparr>req_headers = [(''x-paystack-signature'', ''sig'')], req_body = ''{}'',
                req_json = pl\<rparr>"

definition unsigned :: "payload \<Rightarrow> webhook_request" where
  "unsigned pl = \<lparr>req_headers = [], req_body = ''{}'', req_json = pl\<rparr>"

definition forged :: "payload \<Rightarrow> webhook_request" where
  "forged pl = \<lparr>req_headers = [(''x-paystack-signature'', ''bad'')], req_body = ''{}'',
                req_json = pl\<rparr>"

definition gateway_event :: "string \<Rightarrow> string \<Rightarrow> int \<Rightarrow> payload" where
  "gateway_event e r a =
     \<lparr>event = Some e,
      data = \<lparr>ev_reference = Some r, ev_amount = Some a, ev_status = Some ''success''\<rparr>\<rparr>"

text \<open>
  Two failing gateways, one that raises and one that answers with a falsy \<^verbatim>\<open>status\<close>,
  and a rendering of the caught exception.
\<close>

definition gateway_down :: "string \<Rightarrow> int \<Rightarrow> string \<Rightarrow> gateway_result" where
  "gateway_down e a r = Raised (GatewayError ''timeout'')"

definition gateway_refuses :: "string \<Rightarrow> int \<Rightarrow> string \<Rightarrow> gateway_result" where
  "gateway_refuses e a r = Returned False None"

definition plain_str :: "caught \<Rightarrow> string" where
  "plain_str e = (case e of FromGateway (GatewayError m) \<Rightarrow> m
                  | FromHandler _ \<Rightarrow> ''500: Failed to initialize payment'')"

section \<open>Rows and lookups\<close>

lemmas session_defs = begin_session_def db_commit_def commit_if_def wallet_update_def
  transaction_insert_def transaction_update_def webhook_log_insert_def set_processed_def
  wallet_by_user_def wallet_by_number_def wallet_by_id_def transaction_by_reference_def

lemma find_Some_mem: "find P xs = Some x \<Longrightarrow> x \<in> set xs \<and> P x"
  by (induction xs) (auto split: if_splits)

lemma put_wallet_ids: "map w_id (put_wallet w ws) = map w_id ws"
  by (induction ws) (simp_all add: put_wallet_def)

lemma find_put_wallet_same:
  "w_id w \<in> set (map w_id ws) \<Longrightarrow> find (\<lambda>x. w_id x = w_id w) (put_wallet w ws) = Some w"
  by (induction ws) (auto simp: put_wallet_def)

lemma find_put_wallet_other:
  "i \<noteq> w_id w \<Longrightarrow> find (\<lambda>x. w_id x = i) (put_wallet w ws) = find (\<lambda>x. w_id x = i) ws"
  by (induction ws) (auto simp: put_wallet_def)

lemma put_transaction_fresh:
  "tx_id t \<notin> tx_id ` set ts \<Longrightarrow> put_transaction t ts = ts"
  by (induction ts) (auto simp: put_transaction_def)

lemma put_transaction_append:
  "put_transaction t (xs @ ys) = put_transaction t xs @ put_transaction t ys"
  by (simp add: put_transaction_def)

lemma put_transaction_single:
  "tx_id t = tx_id u \<Longrightarrow> put_transaction t [u] = [t]"
  by (simp add: put_transaction_def)

lemma find_put_transaction_ref:
  "find (\<lambda>x. reference x = r) ts = Some t \<Longrightarrow> tx_id t' = tx_id t \<Longrightarrow> reference t' = r \<Longrightarrow>
   find (\<lambda>x. reference x = r) (put_transaction t' ts) = Some t'"
  by (induction ts) (auto simp: put_transaction_def split: if_splits)

lemma flag_last_snoc: "flag_last (ls @ [l]) = ls @ [l\<lparr>processed := True\<rparr>]"
  by (induction ls rule: flag_last.induct) simp_all

lemmas example_defs = wallet_A_def wallet_B_def user_A_def ledger0_def to_wallet_def
  user_B_def ledger_overdrawn_def
  pending_deposit_def ledger1_def ledger_failed_def accept_sig_def signed_def unsigned_def
  forged_def gateway_event_def gateway_down_def gateway_refuses_def plain_str_def

section \<open>Transfers\<close>

text \<open>
  Claim C2. A transfer of a positive amount that the sender's balance covers, to a different
  wallet found by its wallet number, succeeds. It commits once, and in the committed state
  the sender holds \<open>bx - a\<close>, the recipient holds \<open>by + a\<close>, and the ledger has
  gained exactly two rows: a debit on the sender and a credit on the recipient, both of
  type transfer, of the same amount, with status success. The credit row names the debit
  row in \<open>related_tx_id\<close>. The debit row holds there what \<^verbatim>\<open>credit_tx.id\<close> read before the
  credit draft was inserted: the id of the credit row when the constructor assigns ids,
  and nothing when the insert does, in which case the two rows are not mutually linked.
  The id \<open>i\<close> of the debit row is a fresh primary key.
\<close>

theorem transfer_success:
  assumes sender: "wallet_by_user (begin_session d) (user_id usr) = Some sw"
      and recipient: "wallet_by_number (begin_session d) (tr_wallet_number request) = Some rw"
      and distinct: "w_id rw \<noteq> w_id sw"
      and pos: "0 < tr_amount request"
      and enough: "tr_amount request \<le> balance sw"
      and fresh: "i \<notin> tx_id ` set (transactions d)"
  shows "\<exists>s1. transfer_funds ids request usr hex16 i j d =
           (Inr (success_response 200 ''Transfer completed''
              (TransferData (''txf_'' @ hex16) (tr_amount request) (tr_wallet_number request))), s1)
         \<and> history s1 = [committed s1]
         \<and> wallet_by_id (begin_session (committed s1)) (w_id sw)
             = Some (sw\<lparr>balance := balance sw - tr_amount request\<rparr>)
         \<and> wallet_by_id (begin_session (committed s1)) (w_id rw)
             = Some (rw\<lparr>balance := balance rw + tr_amount request\<rparr>)
         \<and> transactions (committed s1) = transactions d @
             [\<lparr>tx_id = i, reference = ''txf_'' @ hex16 @ ''_debit'',
               tx_wallet_id = w_id sw, tx_user_id = user_id usr,
               tx_type = TRANSFER, direction = DEBIT,
               amount = tr_amount request, status = SUCCESS,
               related_tx_id = id_before_insert ids j,
               extra = RecipientWallet (tr_wallet_number request)\<rparr>,
              \<lparr>tx_id = j, reference = ''txf_'' @ hex16 @ ''_credit'',
               tx_wallet_id = w_id rw, tx_user_id = w_user_id rw,
               tx_type = TRANSFER, direction = CREDIT,
               amount = tr_amount request, status = SUCCESS,
               related_tx_id = Some i,
               extra = SenderWallet (wallet_number sw)\<rparr>]"
proof -
  let ?ws = "wallets d"
  let ?a = "tr_amount request"
  let ?sw = "sw\<lparr>balance := balance sw - ?a\<rparr>"
  let ?rw = "rw\<lparr>balance := balance rw + ?a\<rparr>"
  have sw_in: "w_id sw \<in> set (map w_id ?ws)"
    using sender find_Some_mem[of "\<lambda>w. w_user_id w = user_id usr" ?ws sw]
    by (simp add: wallet_by_user_def begin_session_def)
  have rw_in: "w_id rw \<in> set (map w_id ?ws)"
    using recipient find_Some_mem[of "\<lambda>w. wallet_number w = tr_wallet_number request" ?ws rw]
    by (simp add: wallet_by_number_def begin_session_def)
  have f1: "find (\<lambda>x. w_id x = w_id sw) (put_wallet ?rw (put_wallet ?sw ?ws)) = Some ?sw"
    using find_put_wallet_other[of "w_id sw" ?rw "put_wallet ?sw ?ws"]
          find_put_wallet_same[of ?sw ?ws] sw_in distinct by simp
  have f2: "find (\<lambda>x. w_id x = w_id rw) (put_wallet ?rw (put_wallet ?sw ?ws)) = Some ?rw"
    using find_put_wallet_same[of ?rw "put_wallet ?sw ?ws"] rw_in
    by (simp add: put_wallet_ids)
  have tx: "put_transaction t (transactions d) = transactions d" if "tx_id t = i" for t
    using put_transaction_fresh[of t "transactions d"] fresh that by simp
  show ?thesis
    using sender recipient distinct pos enough f1 f2
    by (simp add: transfer_funds_def Let_def session_defs credit_def debit_def
          put_transaction_append put_transaction_single tx)
qed

text \<open>
  The transfer of 2000 from A to \<^verbatim>\<open>B-001\<close>: with ids assigned by the insert the debit row
  has no back-reference, with ids assigned by the constructor it names the credit row.
\<close>

theorem transfer_success_witness:
  "fst (transfer_funds OnInsert (to_wallet ''B-001'' 2000) user_A ''00ff'' 1 2 ledger0)
     = Inr (success_response 200 ''Transfer completed'' (TransferData ''txf_00ff'' 2000 ''B-001''))
   \<and> map balance (wallets (committed
         (snd (transfer_funds OnInsert (to_wallet ''B-001'' 2000) user_A ''00ff'' 1 2 ledger0))))
     = [3000, 2000]
   \<and> map direction (transactions (committed
         (snd (transfer_funds OnInsert (to_wallet ''B-001'' 2000) user_A ''00ff'' 1 2 ledger0))))
     = [DEBIT, CREDIT]
   \<and> map related_tx_id (transactions (committed
         (snd (transfer_funds OnInsert (to_wallet ''B-001'' 2000) user_A ''00ff'' 1 2 ledger0))))
     = [None, Some 1]
   \<and> map related_tx_id (transactions (committed
         (snd (transfer_funds OnConstruction (to_wallet ''B-001'' 2000) user_A ''00ff'' 1 2
                ledger0))))
     = [Some 2, Some 1]"
proof -
  let ?R = "\<lambda>ids. transfer_funds ids (to_wallet ''B-001'' 2000) user_A ''00ff'' 1 2 ledger0"
  have a: "wallet_by_user (begin_session ledger0) (user_id user_A) = Some wallet_A"
    by (simp add: session_defs example_defs)
  have b: "wallet_by_number (begin_session ledger0) (tr_wallet_number (to_wallet ''B-001'' 2000))
             = Some wallet_B"
    by (simp add: session_defs example_defs)
  have c: "w_id wallet_B \<noteq> w_id wallet_A" "0 < tr_amount (to_wallet ''B-001'' 2000)"
    "tr_amount (to_wallet ''B-001'' 2000) \<le> balance wallet_A"
    "1 \<notin> tx_id ` set (transactions ledger0)"
    by (simp_all add: example_defs)
  have rows: "fst (?R ids) = Inr (success_response 200 ''Transfer completed''
                 (TransferData ''txf_00ff'' 2000 ''B-001''))
     \<and> map direction (transactions (committed (snd (?R ids)))) = [DEBIT, CREDIT]
     \<and> map related_tx_id (transactions (committed (snd (?R ids))))
         = [id_before_insert ids 2, Some 1]" for ids
  proof -
    from transfer_success[OF a b c, of ids "''00ff''" 2]
    obtain s1 where r: "?R ids = (Inr (success_response 200 ''Transfer completed''
              (TransferData (''txf_'' @ ''00ff'') (tr_amount (to_wallet ''B-001'' 2000))
                 (tr_wallet_number (to_wallet ''B-001'' 2000)))), s1)"
      and t: "transactions (committed s1) = transactions ledger0 @
             [\<lparr>tx_id = 1, reference = ''txf_'' @ ''00ff'' @ ''_debit'',
               tx_wallet_id = w_id wallet_A, tx_user_id = user_id user_A,
               tx_type = TRANSFER, direction = DEBIT,
               amount = tr_amount (to_wallet ''B-001'' 2000), status = SUCCESS,
               related_tx_id = id_before_insert ids 2,
               extra = RecipientWallet (tr_wallet_number (to_wallet ''B-001'' 2000))\<rparr>,
              \<lparr>tx_id = 2, reference = ''txf_'' @ ''00ff'' @ ''_credit'',
               tx_wallet_id = w_id wallet_B, tx_user_id = w_user_id wallet_B,
               tx_type = TRANSFER, direction = CREDIT,
               amount = tr_amount (to_wallet ''B-001'' 2000), status = SUCCESS,
               related_tx_id = Some 1,
               extra = SenderWallet (wallet_number wallet_A)\<rparr>]"
      by blast
    show ?thesis using r t by (simp add: example_defs)
  qed
  have w: "map balance (wallets (committed (snd (?R OnInsert)))) = [3000, 2000]"
    by (simp add: transfer_funds_def Let_def session_defs example_defs credit_def debit_def
          put_wallet_def)
  show ?thesis
    using rows[of OnInsert] rows[of OnConstruction] w
    by (simp add: id_before_insert_def)
qed

text \<open>
  Claim C4, as stated, covers every amount above the balance. An amount of 0 against the
  overdrawn wallet B (balance -700) is above the balance, and the handler raises
  \<^verbatim>\<open>Invalid amount\<close>: the amount is checked before the balance.
\<close>

theorem transfer_zero_amount_counterexample:
  "wallet_by_user (begin_session ledger_overdrawn) (user_id user_B)
     = Some (wallet_B\<lparr>balance := - 700\<rparr>)
   \<and> balance (wallet_B\<lparr>balance := - 700\<rparr>) < tr_amount (to_wallet ''A-001'' 0)
   \<and> fst (transfer_funds OnInsert (to_wallet ''A-001'' 0) user_B ''00ff'' 1 2 ledger_overdrawn)
     = Inl (HTTPException 400 ''Invalid amount'')"
  by (simp add: transfer_funds_def Let_def session_defs example_defs)

text \<open>
  Claim C4, amended. When a positive amount exceeds the balance of the sender's wallet,
  the handler returns the failure body \<^verbatim>\<open>Insufficient balance\<close> with the balance and the
  required amount as context; it raises nothing, commits nothing and leaves the durable
  state as it was, so no balance has changed and no transaction row exists that did not
  exist before.
\<close>

theorem transfer_insufficient_funds:
  assumes "wallet_by_user (begin_session d) (user_id usr) = Some sw"
      and "0 < tr_amount request" and "balance sw < tr_amount request"
  shows "fst (transfer_funds ids request usr hex16 i j d) =
           Inr (fail_response 400 ''Insufficient balance'' (balance sw) (tr_amount request))
         \<and> committed (snd (transfer_funds ids request usr hex16 i j d)) = d
         \<and> history (snd (transfer_funds ids request usr hex16 i j d)) = []"
  using assms by (simp add: transfer_funds_def Let_def begin_session_def)

theorem transfer_insufficient_funds_witness:
  "fst (transfer_funds OnInsert (to_wallet ''B-001'' 6000) user_A ''00ff'' 1 2 ledger0) =
     Inr (fail_response 400 ''Insufficient balance'' 5000 6000)
   \<and> committed (snd (transfer_funds OnInsert (to_wallet ''B-001'' 6000) user_A ''00ff'' 1 2
        ledger0)) = ledger0
   \<and> history (snd (transfer_funds OnInsert (to_wallet ''B-001'' 6000) user_A ''00ff'' 1 2
        ledger0)) = []
   \<and> fst (transfer_funds OnInsert (to_wallet ''A-001'' 100) user_B ''00ff'' 1 2
        ledger_overdrawn) = Inr (fail_response 400 ''Insufficient balance'' (- 700) 100)
   \<and> committed (snd (transfer_funds OnInsert (to_wallet ''A-001'' 100) user_B ''00ff'' 1 2
        ledger_overdrawn)) = ledger_overdrawn"
proof -
  have f: "wallet_by_user (begin_session ledger0) (user_id user_A) = Some wallet_A"
    by (simp add: session_defs example_defs)
  have p: "0 < tr_amount (to_wallet ''B-001'' 6000)"
    and b: "balance wallet_A < tr_amount (to_wallet ''B-001'' 6000)"
    by (simp_all add: example_defs)
  have f': "wallet_by_user (begin_session ledger_overdrawn) (user_id user_B)
              = Some (wallet_B\<lparr>balance := - 700\<rparr>)"
    by (simp add: session_defs example_defs)
  have p': "0 < tr_amount (to_wallet ''A-001'' 100)"
    and b': "balance (wallet_B\<lparr>balance := - 700\<rparr>) < tr_amount (to_wallet ''A-001'' 100)"
    by (simp_all add: example_defs)
  from transfer_insufficient_funds[OF f p b, of OnInsert "''00ff''" 1 2]
       transfer_insufficient_funds[OF f' p' b', of OnInsert "''00ff''" 1 2]
  show ?thesis by (simp add: wallet_A_def to_wallet_def)
qed

text \<open>
  Claim C9, as stated, puts the balance check last. The handler checks the balance right
  after resolving the sender: a transfer to one's own wallet, or to a wallet number that
  does not exist, with an amount above the balance is answered with
  \<^verbatim>\<open>Insufficient balance\<close>.
\<close>

theorem transfer_order_counterexample:
  "wallet_by_number (begin_session ledger0) ''A-001''
     = wallet_by_user (begin_session ledger0) (user_id user_A)
   \<and> fst (transfer_funds OnInsert (to_wallet ''A-001'' 6000) user_A ''00ff'' 1 2 ledger0)
     = Inr (fail_response 400 ''Insufficient balance'' 5000 6000)
   \<and> wallet_by_number (begin_session ledger0) ''Z-999'' = None
   \<and> fst (transfer_funds OnInsert (to_wallet ''Z-999'' 6000) user_A ''00ff'' 1 2 ledger0)
     = Inr (fail_response 400 ''Insufficient balance'' 5000 6000)"
  by (simp add: transfer_funds_def Let_def session_defs example_defs)

text \<open>
  Claim C9, amended. The checks run in the order: amount positive, sender wallet found,
  sender balance covers the amount, recipient wallet found by wallet number, recipient
  different from sender. A self-transfer is rejected as such, and an unknown recipient
  reported as not found, when the balance covers the amount.
\<close>

theorem transfer_precondition_order:
  "(tr_amount request \<le> 0 \<longrightarrow>
      fst (transfer_funds ids request usr hex16 i j d)
        = Inl (HTTPException 400 ''Invalid amount''))
   \<and> (0 < tr_amount request \<longrightarrow> wallet_by_user (begin_session d) (user_id usr) = None \<longrightarrow>
      fst (transfer_funds ids request usr hex16 i j d)
        = Inl (HTTPException 404 ''Sender wallet not found''))
   \<and> (0 < tr_amount request \<longrightarrow> wallet_by_user (begin_session d) (user_id usr) = Some sw \<longrightarrow>
      balance sw < tr_amount request \<longrightarrow>
      fst (transfer_funds ids request usr hex16 i j d)
        = Inr (fail_response 400 ''Insufficient balance'' (balance sw) (tr_amount request)))
   \<and> (0 < tr_amount request \<longrightarrow> wallet_by_user (begin_session d) (user_id usr) = Some sw \<longrightarrow>
      tr_amount request \<le> balance sw \<longrightarrow>
      wallet_by_number (begin_session d) (tr_wallet_number request) = None \<longrightarrow>
      fst (transfer_funds ids request usr hex16 i j d)
        = Inl (HTTPException 404 ''Recipient wallet not found''))
   \<and> (0 < tr_amount request \<longrightarrow> wallet_by_user (begin_session d) (user_id usr) = Some sw \<longrightarrow>
      tr_amount request \<le> balance sw \<longrightarrow>
      wallet_by_number (begin_session d) (tr_wallet_number request) = Some rw \<longrightarrow>
      w_id rw = w_id sw \<longrightarrow>
      fst (transfer_funds ids request usr hex16 i j d)
        = Inl (HTTPException 400 ''Cannot transfer to self''))"
  by (simp add: transfer_funds_def Let_def)

theorem transfer_precondition_order_witness:
  "fst (transfer_funds OnInsert (to_wallet ''B-001'' 0) user_A ''00ff'' 1 2 ledger0)
     = Inl (HTTPException 400 ''Invalid amount'')
   \<and> fst (transfer_funds OnInsert (to_wallet ''B-001'' 100)
            \<lparr>user_id = 77, email = ''n@example.com''\<rparr> ''00ff'' 1 2 ledger0)
     = Inl (HTTPException 404 ''Sender wallet not found'')
   \<and> fst (transfer_funds OnInsert (to_wallet ''A-001'' 6000) user_A ''00ff'' 1 2 ledger0)
     = Inr (fail_response 400 ''Insufficient balance'' 5000 6000)
   \<and> fst (transfer_funds OnInsert (to_wallet ''Z-999'' 100) user_A ''00ff'' 1 2 ledger0)
     = Inl (HTTPException 404 ''Recipient wallet not found'')
   \<and> fst (transfer_funds OnInsert (to_wallet ''A-001'' 100) user_A ''00ff'' 1 2 ledger0)
     = Inl (HTTPException 400 ''Cannot transfer to self'')"
proof -
  have a: "wallet_by_user (begin_session ledger0) (user_id user_A) = Some wallet_A"
    by (simp add: session_defs example_defs)
  have n: "wallet_by_user (begin_session ledger0) (user_id \<lparr>user_id = 77, email = ''n@example.com''\<rparr>) = None"
    by (simp add: session_defs example_defs)
  have z: "wallet_by_number (begin_session ledger0) (tr_wallet_number (to_wallet ''Z-999'' 100)) = None"
    by (simp add: session_defs example_defs)
  have s: "wallet_by_number (begin_session ledger0) (tr_wallet_number (to_wallet ''A-001'' 100)) = Some wallet_A"
    by (simp add: session_defs example_defs)
  have b: "balance wallet_A = 5000" by (simp add: wallet_A_def)
  show ?thesis
    using transfer_precondition_order[of "to_wallet ''B-001'' 0" OnInsert user_A "''00ff''" 1 2 ledger0]
          transfer_precondition_order[of "to_wallet ''B-001'' 100" OnInsert "\<lparr>user_id = 77, email = ''n@example.com''\<rparr>" "''00ff''" 1 2 ledger0]
          transfer_precondition_order[of "to_wallet ''A-001'' 6000" OnInsert user_A "''00ff''" 1 2 ledger0 wallet_A]
          transfer_precondition_order[of "to_wallet ''Z-999'' 100" OnInsert user_A "''00ff''" 1 2 ledger0 wallet_A]
          transfer_precondition_order[of "to_wallet ''A-001'' 100" OnInsert user_A "''00ff''" 1 2 ledger0 wallet_A wallet_A]
          a n z s b
    by (simp add: to_wallet_def)
qed

section \<open>Webhook deliveries\<close>

lemma committed_commit: "committed (db_commit s) = working s"
  and history_commit: "history (db_commit s) = history s @ [working s]"
  by (simp_all add: db_commit_def)

lemma charge_success_noop:
  assumes "ev_reference dat = None \<or> ev_reference dat = Some []
     \<or> (\<exists>r. ev_reference dat = Some r \<and>
          (transaction_by_reference s r = None
           \<or> (\<exists>tx. transaction_by_reference s r = Some tx
                 \<and> (status tx = SUCCESS \<or> ev_status dat \<noteq> Some ''success''))))"
  shows "charge_success dat s = (Inr status_true, db_commit (set_processed s))"
  using assms by (auto simp: charge_success_def)

lemma charge_success_credit:
  assumes "ev_reference dat = Some r" and "r \<noteq> []"
      and "transaction_by_reference s r = Some tx" and "status tx \<noteq> SUCCESS"
      and "ev_status dat = Some ''success''"
      and "wallet_by_id s (tx_wallet_id tx) = Some w" and "ev_amount dat = Some a"
  shows "charge_success dat s =
           (Inr status_true,
            db_commit (set_processed
              (transaction_update (tx\<lparr>status := SUCCESS, extra := EventData dat\<rparr>) False
                 (wallet_update (credit w a) False s))))"
  using assms by (simp add: charge_success_def Let_def)

lemma webhook_signed:
  assumes "signature_accepted vf rq"
  shows "paystack_webhook vf rq d =
          (if event (req_json rq) = Some ''charge.success'' then
             charge_success (data (req_json rq))
               (webhook_log_insert \<lparr>provider = ''paystack'', log_payload = req_json rq,
                  log_headers = req_headers rq, processed = False\<rparr> False (begin_session d))
           else (Inr status_true,
               webhook_log_insert \<lparr>provider = ''paystack'', log_payload = req_json rq,
                  log_headers = req_headers rq, processed = False\<rparr> False (begin_session d)))"
  using assms
  by (auto simp: paystack_webhook_def signature_accepted_def Let_def split: option.splits)

text \<open>What a settling delivery leaves behind, and when a delivery changes no ledger row.\<close>

lemma webhook_settles:
  assumes sig: "signature_accepted vf rq"
      and ev: "event (req_json rq) = Some ''charge.success''"
      and ref: "ev_reference (data (req_json rq)) = Some r" "r \<noteq> []"
      and st: "ev_status (data (req_json rq)) = Some ''success''"
      and am: "ev_amount (data (req_json rq)) = Some a"
      and tx: "transaction_by_reference (begin_session d) r = Some tx"
      and open_tx: "status tx \<noteq> SUCCESS"
      and w: "wallet_by_id (begin_session d) (tx_wallet_id tx) = Some w"
  shows "fst (paystack_webhook vf rq d) = Inr status_true"
    and "wallets (committed (snd (paystack_webhook vf rq d)))
           = put_wallet (w\<lparr>balance := balance w + a\<rparr>) (wallets d)"
    and "transactions (committed (snd (paystack_webhook vf rq d)))
           = put_transaction (tx\<lparr>status := SUCCESS, extra := EventData (data (req_json rq))\<rparr>)
               (transactions d)"
proof -
  let ?s1 = "webhook_log_insert \<lparr>provider = ''paystack'', log_payload = req_json rq,
                  log_headers = req_headers rq, processed = False\<rparr> False (begin_session d)"
  have tx1: "transaction_by_reference ?s1 r = Some tx"
    using tx by (simp add: session_defs)
  have w1: "wallet_by_id ?s1 (tx_wallet_id tx) = Some w"
    using w by (simp add: session_defs)
  have R: "paystack_webhook vf rq d =
           (Inr status_true,
            db_commit (set_processed
              (transaction_update
                 (tx\<lparr>status := SUCCESS, extra := EventData (data (req_json rq))\<rparr>) False
                 (wallet_update (credit w a) False ?s1))))"
    by (simp add: webhook_signed[OF sig] ev charge_success_credit[OF ref tx1 open_tx st w1 am])
  show "fst (paystack_webhook vf rq d) = Inr status_true"
    by (simp add: R)
  show "wallets (committed (snd (paystack_webhook vf rq d)))
           = put_wallet (w\<lparr>balance := balance w + a\<rparr>) (wallets d)"
    unfolding R by (simp add: session_defs credit_def)
  show "transactions (committed (snd (paystack_webhook vf rq d)))
           = put_transaction (tx\<lparr>status := SUCCESS, extra := EventData (data (req_json rq))\<rparr>)
               (transactions d)"
    unfolding R by (simp add: session_defs)
qed

lemma webhook_noop:
  assumes sig: "signature_accepted vf rq"
      and settled: "event (req_json rq) \<noteq> Some ''charge.success''
        \<or> ev_reference (data (req_json rq)) = None \<or> ev_reference (data (req_json rq)) = Some []
        \<or> (\<exists>r. ev_reference (data (req_json rq)) = Some r \<and>
          (transaction_by_reference (begin_session d) r = None
           \<or> (\<exists>tx. transaction_by_reference (begin_session d) r = Some tx
                 \<and> (status tx = SUCCESS \<or> ev_status (data (req_json rq)) \<noteq> Some ''success''))))"
  shows "fst (paystack_webhook vf rq d) = Inr status_true"
    and "wallets (committed (snd (paystack_webhook vf rq d))) = wallets d"
    and "transactions (committed (snd (paystack_webhook vf rq d))) = transactions d"
proof -
  let ?s1 = "webhook_log_insert \<lparr>provider = ''paystack'', log_payload = req_json rq,
                  log_headers = req_headers rq, processed = False\<rparr> False (begin_session d)"
  have same: "transaction_by_reference ?s1 r = transaction_by_reference (begin_session d) r" for r
    by (simp add: session_defs)
  have c: "fst (paystack_webhook vf rq d) = Inr status_true
     \<and> wallets (committed (snd (paystack_webhook vf rq d))) = wallets d
     \<and> transactions (committed (snd (paystack_webhook vf rq d))) = transactions d"
  proof (cases "event (req_json rq) = Some ''charge.success''")
    case False
    then show ?thesis by (simp add: webhook_signed[OF sig] session_defs)
  next
    case True
    with settled have "charge_success (data (req_json rq)) ?s1
        = (Inr status_true, db_commit (set_processed ?s1))"
      by (intro charge_success_noop) (simp add: same)
    with True have R: "paystack_webhook vf rq d = (Inr status_true, db_commit (set_processed ?s1))"
      by (simp add: webhook_signed[OF sig])
    show ?thesis unfolding R by (simp add: session_defs)
  qed
  from c show "fst (paystack_webhook vf rq d) = Inr status_true"
    and "wallets (committed (snd (paystack_webhook vf rq d))) = wallets d"
    and "transactions (committed (snd (paystack_webhook vf rq d))) = transactions d"
    by simp_all
qed

lemma charge_success_cases:
  "(charge_success dat s = (Inl TypeError, s) \<and> ev_amount dat = None)
   \<or> (\<exists>s'. charge_success dat s = (Inr status_true, db_commit (set_processed s'))
          \<and> webhook_logs (working s') = webhook_logs (working s)
          \<and> history s' = history s)"
proof (cases "\<exists>r tx w. ev_reference dat = Some r \<and> r \<noteq> []
    \<and> transaction_by_reference s r = Some tx \<and> status tx \<noteq> SUCCESS
    \<and> ev_status dat = Some ''success'' \<and> wallet_by_id s (tx_wallet_id tx) = Some w")
  case True
  then obtain r tx w where h: "ev_reference dat = Some r" "r \<noteq> []"
    "transaction_by_reference s r = Some tx" "status tx \<noteq> SUCCESS"
    "ev_status dat = Some ''success''" "wallet_by_id s (tx_wallet_id tx) = Some w"
    by blast
  show ?thesis
  proof (cases "ev_amount dat")
    case None
    with h show ?thesis by (simp add: charge_success_def Let_def)
  next
    case (Some a)
    let ?s = "transaction_update (tx\<lparr>status := SUCCESS, extra := EventData dat\<rparr>) False
                 (wallet_update (credit w a) False s)"
    have "webhook_logs (working ?s) = webhook_logs (working s)" "history ?s = history s"
      by (simp_all add: session_defs)
    with charge_success_credit[OF h Some] show ?thesis by blast
  qed
next
  case False
  let ?tx = "\<lambda>tx. tx\<lparr>status := SUCCESS, extra := EventData dat\<rparr>"
  have "charge_success dat s = (Inr status_true, db_commit (set_processed s))
    \<or> (\<exists>tx. charge_success dat s
          = (Inr status_true, db_commit (set_processed (transaction_update (?tx tx) False s))))"
    using False by (auto simp: charge_success_def Let_def split: option.splits)
  moreover have "webhook_logs (working (transaction_update t False s)) = webhook_logs (working s)"
    "history (transaction_update t False s) = history s" for t
    by (simp_all add: session_defs)
  ultimately show ?thesis by metis
qed

lemmas webhook_defs = paystack_webhook_def charge_success_def Let_def session_defs
  credit_def put_wallet_def put_transaction_def

lemma signed_accepted: "signature_accepted accept_sig (signed pl)"
  by (simp add: signature_accepted_def accept_sig_def signed_def)

text \<open>
  Claim C1. A validly signed \<^verbatim>\<open>charge.success\<close> event reporting success for a PENDING
  deposit, delivered twice: the first delivery is acknowledged, marks the transaction
  SUCCESS and credits its wallet with the event amount; the second delivery of the same
  request against the state the first one committed is acknowledged and changes neither
  a wallet nor a transaction row. The wallet is credited exactly once.
\<close>

theorem webhook_replay_credits_once:
  assumes sig: "signature_accepted vf rq"
      and ev: "event (req_json rq) = Some ''charge.success''"
      and ref: "ev_reference (data (req_json rq)) = Some r" "r \<noteq> []"
      and st: "ev_status (data (req_json rq)) = Some ''success''"
      and am: "ev_amount (data (req_json rq)) = Some a"
      and tx: "transaction_by_reference (begin_session d) r = Some tx"
      and pending: "status tx = PENDING"
      and w: "wallet_by_id (begin_session d) (tx_wallet_id tx) = Some w"
      and d1: "d1 = committed (snd (paystack_webhook vf rq d))"
      and d2: "d2 = committed (snd (paystack_webhook vf rq d1))"
  shows "fst (paystack_webhook vf rq d) = Inr status_true
       \<and> wallets d1 = put_wallet (w\<lparr>balance := balance w + a\<rparr>) (wallets d)
       \<and> wallet_by_id (begin_session d1) (tx_wallet_id tx) = Some (w\<lparr>balance := balance w + a\<rparr>)
       \<and> transaction_by_reference (begin_session d1) r
            = Some (tx\<lparr>status := SUCCESS, extra := EventData (data (req_json rq))\<rparr>)
       \<and> fst (paystack_webhook vf rq d1) = Inr status_true
       \<and> wallets d2 = wallets d1
       \<and> transactions d2 = transactions d1"
proof -
  let ?w = "w\<lparr>balance := balance w + a\<rparr>"
  let ?tx = "tx\<lparr>status := SUCCESS, extra := EventData (data (req_json rq))\<rparr>"
  from pending have open_tx: "status tx \<noteq> SUCCESS" by simp
  note first = webhook_settles[OF sig ev ref st am tx open_tx w]
  have wid: "w_id w = tx_wallet_id tx" and "w \<in> set (wallets d)"
    using w find_Some_mem[of "\<lambda>x. w_id x = tx_wallet_id tx" "wallets d" w]
    by (simp_all add: session_defs)
  then have w_in: "tx_wallet_id tx \<in> set (map w_id (wallets d))"
    by force
  have wl: "wallet_by_id (begin_session d1) (tx_wallet_id tx) = Some ?w"
    using find_put_wallet_same[of ?w "wallets d"] w_in wid
    by (simp add: d1 first(2) session_defs)
  have "find (\<lambda>x. reference x = r) (transactions d) = Some tx"
    using tx by (simp add: session_defs)
  then have "reference tx = r"
    using find_Some_mem[of "\<lambda>x. reference x = r" "transactions d" tx] by simp
  with \<open>find (\<lambda>x. reference x = r) (transactions d) = Some tx\<close>
  have tl: "transaction_by_reference (begin_session d1) r = Some ?tx"
    using find_put_transaction_ref[of r "transactions d" tx ?tx]
    by (simp add: d1 first(3) session_defs)
  have settled: "event (req_json rq) \<noteq> Some ''charge.success''
        \<or> ev_reference (data (req_json rq)) = None \<or> ev_reference (data (req_json rq)) = Some []
        \<or> (\<exists>r. ev_reference (data (req_json rq)) = Some r \<and>
          (transaction_by_reference (begin_session d1) r = None
           \<or> (\<exists>tx. transaction_by_reference (begin_session d1) r = Some tx
                 \<and> (status tx = SUCCESS \<or> ev_status (data (req_json rq)) \<noteq> Some ''success''))))"
    using ref tl by simp
  note second = webhook_noop[OF sig settled]
  show ?thesis
    using first(1) first(2) wl tl second by (simp add: d1 d2)
qed

theorem webhook_replay_credits_once_witness:
  "map balance (wallets (committed (snd (paystack_webhook accept_sig
      (signed (gateway_event ''charge.success'' ''dep_00aa'' 500)) ledger1)))) = [5000, 500]
   \<and> fst (paystack_webhook accept_sig (signed (gateway_event ''charge.success'' ''dep_00aa'' 500))
        (committed (snd (paystack_webhook accept_sig
           (signed (gateway_event ''charge.success'' ''dep_00aa'' 500)) ledger1))))
     = Inr status_true
   \<and> map balance (wallets (committed (snd (paystack_webhook accept_sig
        (signed (gateway_event ''charge.success'' ''dep_00aa'' 500))
        (committed (snd (paystack_webhook accept_sig
           (signed (gateway_event ''charge.success'' ''dep_00aa'' 500)) ledger1))))))) = [5000, 500]"
proof -
  let ?rq = "signed (gateway_event ''charge.success'' ''dep_00aa'' 500)"
  have h: "event (req_json ?rq) = Some ''charge.success''"
    "ev_reference (data (req_json ?rq)) = Some ''dep_00aa''" "''dep_00aa'' \<noteq> []"
    "ev_status (data (req_json ?rq)) = Some ''success''"
    "ev_amount (data (req_json ?rq)) = Some 500"
    "transaction_by_reference (begin_session ledger1) ''dep_00aa'' = Some pending_deposit"
    "status pending_deposit = PENDING"
    "wallet_by_id (begin_session ledger1) (tx_wallet_id pending_deposit) = Some wallet_B"
    by (simp_all add: example_defs session_defs)
  from webhook_replay_credits_once[OF signed_accepted h refl refl]
  show ?thesis
    by (simp add: example_defs put_wallet_def)
qed

text \<open>
  Claim C5, as stated, makes FAILED absorbing as well. The handler only stops at SUCCESS:
  a \<^verbatim>\<open>charge.success\<close> event reporting success for a FAILED deposit moves it to SUCCESS and
  credits the wallet.
\<close>

theorem webhook_failed_reopened_counterexample:
  "transaction_by_reference (begin_session ledger_failed) ''dep_00aa''
     = Some (pending_deposit\<lparr>status := FAILED\<rparr>)
   \<and> map balance (wallets ledger_failed) = [5000, 0]
   \<and> map status (transactions (committed (snd (paystack_webhook accept_sig
        (signed (gateway_event ''charge.success'' ''dep_00aa'' 500)) ledger_failed)))) = [SUCCESS]
   \<and> map balance (wallets (committed (snd (paystack_webhook accept_sig
        (signed (gateway_event ''charge.success'' ''dep_00aa'' 500)) ledger_failed)))) = [5000, 500]"
  by (simp add: webhook_defs example_defs)

text \<open>
  Claim C5, amended. A validly signed event of any type that carries the reference of a
  transaction already SUCCESS, or of a FAILED transaction while the event does not report
  success, or a reference that matches no transaction, is acknowledged without raising,
  and the committed wallets and transactions are those from before.
\<close>

theorem webhook_settled_noop:
  assumes sig: "signature_accepted vf rq"
      and ref: "ev_reference (data (req_json rq)) = Some r"
      and settled: "transaction_by_reference (begin_session d) r = None
        \<or> (\<exists>tx. transaction_by_reference (begin_session d) r = Some tx
              \<and> (status tx = SUCCESS
                 \<or> (status tx = FAILED \<and> ev_status (data (req_json rq)) \<noteq> Some ''success'')))"
  shows "fst (paystack_webhook vf rq d) = Inr status_true
       \<and> wallets (committed (snd (paystack_webhook vf rq d))) = wallets d
       \<and> transactions (committed (snd (paystack_webhook vf rq d))) = transactions d"
proof -
  have "event (req_json rq) \<noteq> Some ''charge.success''
        \<or> ev_reference (data (req_json rq)) = None \<or> ev_reference (data (req_json rq)) = Some []
        \<or> (\<exists>r. ev_reference (data (req_json rq)) = Some r \<and>
          (transaction_by_reference (begin_session d) r = None
           \<or> (\<exists>tx. transaction_by_reference (begin_session d) r = Some tx
                 \<and> (status tx = SUCCESS \<or> ev_status (data (req_json rq)) \<noteq> Some ''success''))))"
    using ref settled by auto
  from webhook_noop[OF sig this] show ?thesis by simp
qed

theorem webhook_settled_noop_witness:
  "fst (paystack_webhook accept_sig (signed (gateway_event ''charge.success'' ''dep_00aa'' 500))
      (ledger1\<lparr>transactions := [pending_deposit\<lparr>status := SUCCESS\<rparr>]\<rparr>)) = Inr status_true
   \<and> wallets (committed (snd (paystack_webhook accept_sig
        (signed (gateway_event ''charge.success'' ''dep_00aa'' 500))
        (ledger1\<lparr>transactions := [pending_deposit\<lparr>status := SUCCESS\<rparr>]\<rparr>))))
       = [wallet_A, wallet_B]
   \<and> transactions (committed (snd (paystack_webhook accept_sig
        (signed (gateway_event ''charge.success'' ''dep_00aa'' 500))
        (ledger1\<lparr>transactions := [pending_deposit\<lparr>status := SUCCESS\<rparr>]\<rparr>))))
       = [pending_deposit\<lparr>status := SUCCESS\<rparr>]
   \<and> fst (paystack_webhook accept_sig (signed (gateway_event ''charge.success'' ''dep_ffff'' 500))
        ledger1) = Inr status_true
   \<and> committed (snd (paystack_webhook accept_sig
        (signed (gateway_event ''charge.success'' ''dep_ffff'' 500)) ledger1))
       = ledger1\<lparr>webhook_logs := webhook_logs (committed (snd (paystack_webhook accept_sig
        (signed (gateway_event ''charge.success'' ''dep_ffff'' 500)) ledger1)))\<rparr>"
proof -
  let ?d = "ledger1\<lparr>transactions := [pending_deposit\<lparr>status := SUCCESS\<rparr>]\<rparr>"
  let ?rq = "signed (gateway_event ''charge.success'' ''dep_00aa'' 500)"
  let ?rq' = "signed (gateway_event ''charge.success'' ''dep_ffff'' 500)"
  have r: "ev_reference (data (req_json ?rq)) = Some ''dep_00aa''"
    and r': "ev_reference (data (req_json ?rq')) = Some ''dep_ffff''"
    by (simp_all add: example_defs)
  have s: "transaction_by_reference (begin_session ?d) ''dep_00aa'' = None
        \<or> (\<exists>tx. transaction_by_reference (begin_session ?d) ''dep_00aa'' = Some tx
              \<and> (status tx = SUCCESS
                 \<or> (status tx = FAILED \<and> ev_status (data (req_json ?rq)) \<noteq> Some ''success'')))"
    by (simp add: example_defs session_defs)
  have s': "transaction_by_reference (begin_session ledger1) ''dep_ffff'' = None
        \<or> (\<exists>tx. transaction_by_reference (begin_session ledger1) ''dep_ffff'' = Some tx
              \<and> (status tx = SUCCESS
                 \<or> (status tx = FAILED \<and> ev_status (data (req_json ?rq')) \<noteq> Some ''success'')))"
    by (simp add: example_defs session_defs)
  have e: "d = ledger1\<lparr>webhook_logs := webhook_logs d\<rparr>"
    if "wallets d = wallets ledger1" "transactions d = transactions ledger1" for d
    using that by (cases d) (simp add: ledger1_def)
  from webhook_settled_noop[OF signed_accepted r s]
       webhook_settled_noop[OF signed_accepted r' s']
  show ?thesis
    using e[of "committed (snd (paystack_webhook accept_sig ?rq' ledger1))"]
    by (simp add: ledger1_def)
qed

text \<open>
  Claim C6. A request whose signature header is missing or empty, or whose signature does
  not verify, is rejected by raising (status 400 \<^verbatim>\<open>Missing signature\<close>, status 401
  \<^verbatim>\<open>Invalid signature\<close>) before anything is written: the session is the one the request
  started with, without a log row, and nothing has been committed.
\<close>

theorem webhook_rejects_bad_signature:
  assumes "\<not> signature_accepted vf rq"
  shows "(fst (paystack_webhook vf rq d) = Inl (HTTPException 400 ''Missing signature'')
          \<or> fst (paystack_webhook vf rq d) = Inl (HTTPException 401 ''Invalid signature''))
       \<and> snd (paystack_webhook vf rq d) = begin_session d
       \<and> committed (snd (paystack_webhook vf rq d)) = d
       \<and> working (snd (paystack_webhook vf rq d)) = d
       \<and> history (snd (paystack_webhook vf rq d)) = []"
  using assms
  by (auto simp: paystack_webhook_def signature_accepted_def Let_def begin_session_def
      split: option.splits)

theorem webhook_rejects_bad_signature_witness:
  "fst (paystack_webhook accept_sig (unsigned (gateway_event ''charge.success'' ''dep_00aa'' 500))
          ledger1) = Inl (HTTPException 400 ''Missing signature'')
   \<and> fst (paystack_webhook accept_sig (forged (gateway_event ''charge.success'' ''dep_00aa'' 500))
          ledger1) = Inl (HTTPException 401 ''Invalid signature'')
   \<and> committed (snd (paystack_webhook accept_sig
        (unsigned (gateway_event ''charge.success'' ''dep_00aa'' 500)) ledger1)) = ledger1
   \<and> working (snd (paystack_webhook accept_sig
        (forged (gateway_event ''charge.success'' ''dep_00aa'' 500)) ledger1)) = ledger1"
proof -
  let ?pl = "gateway_event ''charge.success'' ''dep_00aa'' 500"
  have u: "\<not> signature_accepted accept_sig (unsigned ?pl)"
    and f: "\<not> signature_accepted accept_sig (forged ?pl)"
    by (simp_all add: signature_accepted_def accept_sig_def unsigned_def forged_def)
  have u1: "fst (paystack_webhook accept_sig (unsigned ?pl) ledger1)
              \<noteq> Inl (HTTPException 401 ''Invalid signature'')"
    and f1: "fst (paystack_webhook accept_sig (forged ?pl) ledger1)
              \<noteq> Inl (HTTPException 400 ''Missing signature'')"
    by (simp_all add: paystack_webhook_def Let_def unsigned_def forged_def accept_sig_def)
  from webhook_rejects_bad_signature[OF u, of ledger1]
       webhook_rejects_bad_signature[OF f, of ledger1] u1 f1
  show ?thesis by (simp add: begin_session_def)
qed

text \<open>
  Claim C7 wants a log row made durable for every validly signed event, of every type,
  and flagged processed once the event is found to need no action. For an event of
  another type than \<^verbatim>\<open>charge.success\<close> the handler adds the row to the session
  (\<^verbatim>\<open>commit=False\<close>, line 116) and falls through to the return at line 162, which, unlike
  the three early returns of the \<^verbatim>\<open>charge.success\<close> branch, neither sets
  \<^verbatim>\<open>webhook_log.processed\<close> nor commits: the event is acknowledged, nothing has been
  committed, the durable state is the one from before the request, and the row that the
  session holds and loses has \<open>processed\<close> false.
\<close>

theorem webhook_other_event_not_logged:
  assumes sig: "signature_accepted vf rq"
      and other: "event (req_json rq) \<noteq> Some ''charge.success''"
  shows "fst (paystack_webhook vf rq d) = Inr status_true
       \<and> history (snd (paystack_webhook vf rq d)) = []
       \<and> committed (snd (paystack_webhook vf rq d)) = d
       \<and> webhook_logs (working (snd (paystack_webhook vf rq d)))
           = webhook_logs d @
             [\<lparr>provider = ''paystack'', log_payload = req_json rq,
               log_headers = req_headers rq, processed = False\<rparr>]"
  using other by (simp add: webhook_signed[OF sig] session_defs)

theorem webhook_other_event_not_logged_witness:
  "signature_accepted accept_sig (signed (gateway_event ''charge.failed'' ''dep_00aa'' 500))
   \<and> fst (paystack_webhook accept_sig (signed (gateway_event ''charge.failed'' ''dep_00aa'' 500))
          ledger1) = Inr status_true
   \<and> history (snd (paystack_webhook accept_sig
         (signed (gateway_event ''charge.failed'' ''dep_00aa'' 500)) ledger1)) = []
   \<and> webhook_logs (committed (snd (paystack_webhook accept_sig
         (signed (gateway_event ''charge.failed'' ''dep_00aa'' 500)) ledger1))) = []
   \<and> map processed (webhook_logs (working (snd (paystack_webhook accept_sig
         (signed (gateway_event ''charge.failed'' ''dep_00aa'' 500)) ledger1)))) = [False]"
proof -
  let ?rq = "signed (gateway_event ''charge.failed'' ''dep_00aa'' 500)"
  have e: "event (req_json ?rq) \<noteq> Some ''charge.success''"
    by (simp add: example_defs)
  from webhook_other_event_not_logged[OF signed_accepted e, of ledger1]
  show ?thesis by (simp add: signed_accepted ledger1_def)
qed

text \<open>
  Claim C10. A validly signed \<^verbatim>\<open>charge.success\<close> event reporting success for a PENDING
  deposit credits the wallet with the amount \<open>a\<close> of the event, whatever its sign and
  whatever amount the transaction recorded at initiation: afterwards the wallet holds its
  former balance plus \<open>a\<close>, and the transaction row is SUCCESS with its amount unchanged.
\<close>

theorem webhook_credits_event_amount:
  assumes sig: "signature_accepted vf rq"
      and ev: "event (req_json rq) = Some ''charge.success''"
      and ref: "ev_reference (data (req_json rq)) = Some r" "r \<noteq> []"
      and st: "ev_status (data (req_json rq)) = Some ''success''"
      and am: "ev_amount (data (req_json rq)) = Some a"
      and tx: "transaction_by_reference (begin_session d) r = Some tx"
      and pending: "status tx = PENDING"
      and w: "wallet_by_id (begin_session d) (tx_wallet_id tx) = Some w"
  shows "\<exists>w' tx'.
           wallet_by_id (begin_session (committed (snd (paystack_webhook vf rq d)))) (tx_wallet_id tx)
             = Some w'
         \<and> balance w' = balance w + a
         \<and> transaction_by_reference (begin_session (committed (snd (paystack_webhook vf rq d)))) r
             = Some tx'
         \<and> amount tx' = amount tx \<and> status tx' = SUCCESS"
proof -
  let ?d1 = "committed (snd (paystack_webhook vf rq d))"
  let ?w = "w\<lparr>balance := balance w + a\<rparr>"
  let ?tx = "tx\<lparr>status := SUCCESS, extra := EventData (data (req_json rq))\<rparr>"
  from pending have open_tx: "status tx \<noteq> SUCCESS" by simp
  note first = webhook_settles[OF sig ev ref st am tx open_tx w]
  have wid: "w_id w = tx_wallet_id tx" and "w \<in> set (wallets d)"
    using w find_Some_mem[of "\<lambda>x. w_id x = tx_wallet_id tx" "wallets d" w]
    by (simp_all add: session_defs)
  then have w_in: "tx_wallet_id tx \<in> set (map w_id (wallets d))"
    by force
  have wl: "wallet_by_id (begin_session ?d1) (tx_wallet_id tx) = Some ?w"
    using find_put_wallet_same[of ?w "wallets d"] w_in wid
    by (simp add: first(2) session_defs)
  have f: "find (\<lambda>x. reference x = r) (transactions d) = Some tx"
    using tx by (simp add: session_defs)
  then have "reference tx = r"
    using find_Some_mem[of "\<lambda>x. reference x = r" "transactions d" tx] by simp
  with f have tl: "transaction_by_reference (begin_session ?d1) r = Some ?tx"
    using find_put_transaction_ref[of r "transactions d" tx ?tx]
    by (simp add: first(3) session_defs)
  show ?thesis using wl tl by simp
qed

theorem webhook_credits_event_amount_witness:
  "amount pending_deposit = 500
   \<and> (\<exists>w' tx'.
        wallet_by_id (begin_session (committed (snd (paystack_webhook accept_sig
           (signed (gateway_event ''charge.success'' ''dep_00aa'' 700)) ledger1)))) 2 = Some w'
      \<and> balance w' = 0 + 700
      \<and> transaction_by_reference (begin_session (committed (snd (paystack_webhook accept_sig
           (signed (gateway_event ''charge.success'' ''dep_00aa'' 700)) ledger1)))) ''dep_00aa''
          = Some tx'
      \<and> amount tx' = 500 \<and> status tx' = SUCCESS)"
proof -
  let ?rq = "signed (gateway_event ''charge.success'' ''dep_00aa'' 700)"
  have h: "event (req_json ?rq) = Some ''charge.success''"
    "ev_reference (data (req_json ?rq)) = Some ''dep_00aa''" "''dep_00aa'' \<noteq> []"
    "ev_status (data (req_json ?rq)) = Some ''success''"
    "ev_amount (data (req_json ?rq)) = Some 700"
    "transaction_by_reference (begin_session ledger1) ''dep_00aa'' = Some pending_deposit"
    "status pending_deposit = PENDING"
    "wallet_by_id (begin_session ledger1) (tx_wallet_id pending_deposit) = Some wallet_B"
    by (simp_all add: example_defs session_defs)
  from webhook_credits_event_amount[OF signed_accepted h]
  show ?thesis by (simp add: pending_deposit_def wallet_B_def)
qed

section \<open>Deposit initiation against a failing gateway\<close>

text \<open>
  Claim C8. When the deposit passes the minimum and the wallet exists, and the gateway
  call raises or answers with a falsy \<^verbatim>\<open>status\<close>, the handler raises
  \<^verbatim>\<open>HTTPException(500, "Payment initialization failed: ...")\<close>. It has committed twice:
  first the new PENDING transaction, then the same row as FAILED, which is the durable
  state it leaves. No commit touches a wallet. The id of the new row is a fresh primary
  key.
\<close>

theorem deposit_gateway_failure:
  fixes request :: DepositRequest and usr :: user and w :: wallet and hx :: string
    and new_id :: nat and d :: db and str :: "caught \<Rightarrow> string"
    and initialize_transaction :: "string \<Rightarrow> int \<Rightarrow> string \<Rightarrow> gateway_result"
  defines "tx \<equiv> \<lparr>tx_id = new_id, reference = ''dep_'' @ hx, tx_wallet_id = w_id w,
                  tx_user_id = user_id usr, tx_type = DEPOSIT, direction = CREDIT,
                  amount = dr_amount request, status = PENDING,
                  related_tx_id = None, extra = NoExtra\<rparr>"
      and "R \<equiv> deposit_to_wallet initialize_transaction str request usr hx new_id d"
  assumes min: "100 \<le> dr_amount request"
      and w: "wallet_by_user (begin_session d) (user_id usr) = Some w"
      and fail: "initialize_transaction (email usr) (dr_amount request) (''dep_'' @ hx) = Raised e
                 \<or> initialize_transaction (email usr) (dr_amount request) (''dep_'' @ hx)
                      = Returned False url"
      and fresh: "new_id \<notin> tx_id ` set (transactions d)"
  shows "(\<exists>m. fst R = Inl (HTTPException 500 (''Payment initialization failed: '' @ m)))
       \<and> history (snd R) = [d\<lparr>transactions := transactions d @ [tx]\<rparr>,
                             d\<lparr>transactions := transactions d @ [tx\<lparr>status := FAILED\<rparr>]\<rparr>]
       \<and> committed (snd R) = d\<lparr>transactions := transactions d @ [tx\<lparr>status := FAILED\<rparr>]\<rparr>
       \<and> wallets (committed (snd R)) = wallets d"
proof -
  have p: "put_transaction (tx\<lparr>status := FAILED\<rparr>) (transactions d @ [tx])
             = transactions d @ [tx\<lparr>status := FAILED\<rparr>]"
    using put_transaction_fresh[of "tx\<lparr>status := FAILED\<rparr>" "transactions d"] fresh
    by (simp add: put_transaction_append put_transaction_single tx_def)
  have s1: "transaction_update (tx\<lparr>status := FAILED\<rparr>) True
              (transaction_insert tx True (begin_session d))
            = \<lparr>committed = d\<lparr>transactions := transactions d @ [tx\<lparr>status := FAILED\<rparr>]\<rparr>,
               working = d\<lparr>transactions := transactions d @ [tx\<lparr>status := FAILED\<rparr>]\<rparr>,
               history = [d\<lparr>transactions := transactions d @ [tx]\<rparr>,
                          d\<lparr>transactions := transactions d @ [tx\<lparr>status := FAILED\<rparr>]\<rparr>]\<rparr>"
    by (simp add: session_defs p)
  have "\<exists>c. R = deposit_failed str c tx (transaction_insert tx True (begin_session d))"
    using fail min w
    by (auto simp: R_def deposit_to_wallet_def Let_def tx_def)
  then obtain c where "R = deposit_failed str c tx (transaction_insert tx True (begin_session d))"
    by blast
  then show ?thesis
    by (simp add: deposit_failed_def s1)
qed

theorem deposit_gateway_failure_witness:
  "fst (deposit_to_wallet gateway_down plain_str \<lparr>dr_amount = 500\<rparr> user_A ''00aa'' 5 ledger0)
     = Inl (HTTPException 500 ''Payment initialization failed: timeout'')
   \<and> map (map status \<circ> transactions)
         (history (snd (deposit_to_wallet gateway_down plain_str \<lparr>dr_amount = 500\<rparr> user_A
            ''00aa'' 5 ledger0))) = [[PENDING], [FAILED]]
   \<and> map (map status \<circ> transactions)
         (history (snd (deposit_to_wallet gateway_refuses plain_str \<lparr>dr_amount = 500\<rparr> user_A
            ''00aa'' 5 ledger0))) = [[PENDING], [FAILED]]
   \<and> wallets (committed (snd (deposit_to_wallet gateway_refuses plain_str \<lparr>dr_amount = 500\<rparr>
         user_A ''00aa'' 5 ledger0))) = [wallet_A, wallet_B]"
proof -
  let ?rq = "\<lparr>dr_amount = 500\<rparr>"
  have m: "100 \<le> dr_amount ?rq" by simp
  have w: "wallet_by_user (begin_session ledger0) (user_id user_A) = Some wallet_A"
    by (simp add: session_defs example_defs)
  have f1: "gateway_down (email user_A) (dr_amount ?rq) (''dep_'' @ ''00aa'')
              = Raised (GatewayError ''timeout'')
            \<or> gateway_down (email user_A) (dr_amount ?rq) (''dep_'' @ ''00aa'')
              = Returned False None"
    by (simp add: gateway_down_def)
  have f2: "gateway_refuses (email user_A) (dr_amount ?rq) (''dep_'' @ ''00aa'')
              = Raised (GatewayError ''timeout'')
            \<or> gateway_refuses (email user_A) (dr_amount ?rq) (''dep_'' @ ''00aa'')
              = Returned False None"
    by (simp add: gateway_refuses_def)
  have fr: "5 \<notin> tx_id ` set (transactions ledger0)"
    by (simp add: ledger0_def)
  have e: "fst (deposit_to_wallet gateway_down plain_str ?rq user_A ''00aa'' 5 ledger0)
     = Inl (HTTPException 500 ''Payment initialization failed: timeout'')"
    by (simp add: deposit_to_wallet_def deposit_failed_def Let_def session_defs example_defs)
  note inst = deposit_gateway_failure[where request = ?rq and usr = user_A and w = wallet_A
      and hx = "''00aa''" and new_id = 5 and d = ledger0 and str = plain_str
      and e = "GatewayError ''timeout''" and url = None]
  from inst[where initialize_transaction = gateway_down, OF m w f1 fr]
       inst[where initialize_transaction = gateway_refuses, OF m w f2 fr] e
  show ?thesis by (simp add: ledger0_def)
qed

section \<open>Balances across operation sequences\<close>

lemma nonneg_put_wallet:
  "list_all (\<lambda>w. 0 \<le> balance w) ws \<Longrightarrow> 0 \<le> balance w \<Longrightarrow>
   list_all (\<lambda>w. 0 \<le> balance w) (put_wallet w ws)"
  by (induction ws) (simp_all add: put_wallet_def)

lemma nonneg_member: "list_all (\<lambda>w. 0 \<le> balance w) ws \<Longrightarrow> find P ws = Some w \<Longrightarrow> 0 \<le> balance w"
  using find_Some_mem[of P ws w] by (simp add: list_all_iff)

lemma transfer_keeps_balances_nonneg:
  assumes inv: "balances_nonneg d"
  shows "list_all balances_nonneg (history (snd (transfer_funds ids rq u h i j d)))
       \<and> balances_nonneg (committed (snd (transfer_funds ids rq u h i j d)))"
proof (cases "0 < tr_amount rq \<and>
    (\<exists>sw rw. wallet_by_user (begin_session d) (user_id u) = Some sw
       \<and> tr_amount rq \<le> balance sw
       \<and> wallet_by_number (begin_session d) (tr_wallet_number rq) = Some rw
       \<and> w_id rw \<noteq> w_id sw)")
  case True
  then obtain sw rw where h: "0 < tr_amount rq"
      "wallet_by_user (begin_session d) (user_id u) = Some sw"
      "tr_amount rq \<le> balance sw"
      "wallet_by_number (begin_session d) (tr_wallet_number rq) = Some rw"
      "w_id rw \<noteq> w_id sw"
    by blast
  have "0 \<le> balance rw"
    using nonneg_member[of "wallets d" _ rw] inv h(4)
    by (simp add: balances_nonneg_def session_defs)
  with h have n: "list_all (\<lambda>w. 0 \<le> balance w)
     (put_wallet (rw\<lparr>balance := balance rw + tr_amount rq\<rparr>)
        (put_wallet (sw\<lparr>balance := balance sw - tr_amount rq\<rparr>) (wallets d)))"
    using inv by (simp add: nonneg_put_wallet balances_nonneg_def)
  show ?thesis
    using h n
    by (simp add: transfer_funds_def Let_def session_defs credit_def debit_def
          balances_nonneg_def)
next
  case False
  then have "committed (snd (transfer_funds ids rq u h i j d)) = d
           \<and> history (snd (transfer_funds ids rq u h i j d)) = []"
    by (auto simp: transfer_funds_def Let_def begin_session_def split: option.splits)
  with inv show ?thesis by simp
qed

lemma deposit_keeps_wallets:
  "list_all (\<lambda>x. wallets x = wallets d) (history (snd (deposit_to_wallet g str rq u h i d)))
   \<and> wallets (committed (snd (deposit_to_wallet g str rq u h i d))) = wallets d"
  by (simp add: deposit_to_wallet_def deposit_failed_def Let_def session_defs
        split: option.splits gateway_result.splits)

lemma deposit_keeps_balances_nonneg:
  assumes inv: "balances_nonneg d"
  shows "list_all balances_nonneg (history (snd (deposit_to_wallet g str rq u h i d)))
       \<and> balances_nonneg (committed (snd (deposit_to_wallet g str rq u h i d)))"
proof -
  have "balances_nonneg x" if "wallets x = wallets d" for x
    using that inv by (simp add: balances_nonneg_def)
  then show ?thesis
    using deposit_keeps_wallets[of d g str rq u h i]
    by (auto simp: list_all_iff)
qed

lemma webhook_rejects_unsigned:
  assumes "\<not> signature_accepted vf rq"
  shows "snd (paystack_webhook vf rq d) = begin_session d"
  using assms
  by (auto simp: paystack_webhook_def signature_accepted_def Let_def split: option.splits)

lemma webhook_log_once:
  assumes sig: "signature_accepted vf rq"
      and ev: "event (req_json rq) = Some ''charge.success''"
  shows "fst (paystack_webhook vf rq d) = Inr status_true \<longrightarrow>
            history (snd (paystack_webhook vf rq d)) = [committed (snd (paystack_webhook vf rq d))]"
proof -
  let ?wl = "\<lparr>provider = ''paystack'', log_payload = req_json rq,
                  log_headers = req_headers rq, processed = False\<rparr>"
  let ?s1 = "webhook_log_insert ?wl False (begin_session d)"
  have R: "paystack_webhook vf rq d = charge_success (data (req_json rq)) ?s1"
    by (simp add: webhook_signed[OF sig] ev)
  have s1: "history ?s1 = []"
    by (simp add: session_defs)
  from charge_success_cases[of "data (req_json rq)" ?s1]
  show ?thesis
  proof
    assume "charge_success (data (req_json rq)) ?s1 = (Inl TypeError, ?s1)
              \<and> ev_amount (data (req_json rq)) = None"
    then show ?thesis by (simp add: R)
  next
    assume "\<exists>s'. charge_success (data (req_json rq)) ?s1
                   = (Inr status_true, db_commit (set_processed s'))
          \<and> webhook_logs (working s') = webhook_logs (working ?s1)
          \<and> history s' = history ?s1"
    then obtain s' where c: "charge_success (data (req_json rq)) ?s1
                   = (Inr status_true, db_commit (set_processed s'))"
      and h: "history s' = []"
      using s1 by auto
    show ?thesis
      unfolding R c using h
      by (simp add: db_commit_def set_processed_def)
  qed
qed

lemma webhook_keeps_balances_nonneg:
  assumes inv: "balances_nonneg d"
      and ok: "nonneg_event (Webhook rq)"
  shows "list_all balances_nonneg (history (snd (paystack_webhook vf rq d)))
       \<and> balances_nonneg (committed (snd (paystack_webhook vf rq d)))"
proof (cases "signature_accepted vf rq")
  case False
  from webhook_rejects_unsigned[OF False, of d] inv show ?thesis
    by (simp add: begin_session_def)
next
  case sig: True
  let ?dat = "data (req_json rq)"
  show ?thesis
  proof (cases "event (req_json rq) = Some ''charge.success'' \<and>
      (\<exists>r tx w a. ev_reference ?dat = Some r \<and> r \<noteq> []
         \<and> transaction_by_reference (begin_session d) r = Some tx \<and> status tx \<noteq> SUCCESS
         \<and> ev_status ?dat = Some ''success''
         \<and> wallet_by_id (begin_session d) (tx_wallet_id tx) = Some w
         \<and> ev_amount ?dat = Some a)")
    case True
    then obtain r tx w a where ev: "event (req_json rq) = Some ''charge.success''"
      and h: "ev_reference ?dat = Some r" "r \<noteq> []" "ev_status ?dat = Some ''success''"
        "ev_amount ?dat = Some a"
        "transaction_by_reference (begin_session d) r = Some tx" "status tx \<noteq> SUCCESS"
        "wallet_by_id (begin_session d) (tx_wallet_id tx) = Some w"
      by blast
    note settles = webhook_settles[OF sig ev h]
    have hist: "history (snd (paystack_webhook vf rq d))
                  = [committed (snd (paystack_webhook vf rq d))]"
      using webhook_log_once[OF sig ev, of d] settles(1) by simp
    have "0 \<le> a" using ok h(4) by simp
    moreover have "0 \<le> balance w"
      using nonneg_member[of "wallets d" _ w] inv h(7)
      by (simp add: balances_nonneg_def session_defs)
    ultimately have "balances_nonneg (committed (snd (paystack_webhook vf rq d)))"
      using inv by (simp add: settles(2) balances_nonneg_def nonneg_put_wallet)
    with hist show ?thesis by simp
  next
    case False
    have "snd (paystack_webhook vf rq d) = webhook_log_insert \<lparr>provider = ''paystack'',
             log_payload = req_json rq, log_headers = req_headers rq, processed = False\<rparr>
             False (begin_session d)
        \<or> wallets (committed (snd (paystack_webhook vf rq d))) = wallets d
          \<and> history (snd (paystack_webhook vf rq d)) = [committed (snd (paystack_webhook vf rq d))]"
      using False
      by (auto simp: webhook_signed[OF sig] charge_success_def Let_def session_defs
          split: option.splits)
    then show ?thesis
      using inv by (auto simp: session_defs balances_nonneg_def)
  qed
qed

lemma exec_op_keeps_balances_nonneg:
  assumes "balances_nonneg d" and "nonneg_event x"
  shows "list_all balances_nonneg (history (exec_op vf str x d))
       \<and> balances_nonneg (committed (exec_op vf str x d))"
proof (cases x)
  case (Deposit rq u h i g)
  with assms deposit_keeps_balances_nonneg[of d "\<lambda>_ _ _. g" str rq u h i]
  show ?thesis by simp
next
  case (Webhook rq)
  with assms webhook_keeps_balances_nonneg[of d rq vf] show ?thesis by simp
next
  case (Transfer ids rq u h i j)
  with assms transfer_keeps_balances_nonneg[of d ids rq u h i j] show ?thesis by simp
qed

text \<open>
  Claim C3, as stated, covers every webhook reconciliation. The reconciliation adds the
  amount of the event to the balance without looking at its sign: a validly signed
  \<^verbatim>\<open>charge.success\<close> event with amount -700 for a PENDING deposit into an empty wallet
  commits a balance of -700.
\<close>

theorem negative_event_amount_counterexample:
  "balances_nonneg ledger1
   \<and> signature_accepted accept_sig (signed (gateway_event ''charge.success'' ''dep_00aa'' (- 700)))
   \<and> map (map balance \<circ> wallets) (commit_points accept_sig plain_str
        [Webhook (signed (gateway_event ''charge.success'' ''dep_00aa'' (- 700)))] ledger1)
      = [[5000, - 700]]
   \<and> \<not> list_all balances_nonneg (commit_points accept_sig plain_str
        [Webhook (signed (gateway_event ''charge.success'' ''dep_00aa'' (- 700)))] ledger1)"
  by (simp add: balances_nonneg_def signature_accepted_def webhook_defs example_defs)

text \<open>
  Claim C3, amended. Starting from a state in which no wallet balance is negative, every
  snapshot committed by any sequence of deposit initiations, webhook deliveries and
  transfers has no negative wallet balance, provided no delivered event carries a
  negative amount.
\<close>

theorem balances_never_negative:
  assumes "balances_nonneg d" and "list_all nonneg_event ops"
  shows "list_all balances_nonneg (commit_points vf str ops d)"
  using assms
proof (induction ops arbitrary: d)
  case Nil
  then show ?case by simp
next
  case (Cons x xs)
  from Cons.prems have x: "nonneg_event x" and xs: "list_all nonneg_event xs"
    by simp_all
  note step = exec_op_keeps_balances_nonneg[OF Cons.prems(1) x, of vf str]
  from step Cons.IH[OF _ xs, of "committed (exec_op vf str x d)"]
  show ?case by (simp add: Let_def)
qed

theorem balances_never_negative_witness:
  "list_all balances_nonneg (commit_points accept_sig plain_str
     [Deposit \<lparr>dr_amount = 500\<rparr> user_A ''00aa'' 5 (Returned True (Some ''https://pay'')),
      Webhook (signed (gateway_event ''charge.success'' ''dep_00aa'' 500)),
      Transfer OnInsert (to_wallet ''B-001'' 2000) user_A ''00ff'' 6 7] ledger0)
   \<and> map (map balance \<circ> wallets) (commit_points accept_sig plain_str
     [Deposit \<lparr>dr_amount = 500\<rparr> user_A ''00aa'' 5 (Returned True (Some ''https://pay'')),
      Webhook (signed (gateway_event ''charge.success'' ''dep_00aa'' 500)),
      Transfer OnInsert (to_wallet ''B-001'' 2000) user_A ''00ff'' 6 7] ledger0)
     = [[5000, 0], [5500, 0], [3500, 2000]]"
proof -
  let ?ops = "[Deposit \<lparr>dr_amount = 500\<rparr> user_A ''00aa'' 5 (Returned True (Some ''https://pay'')),
      Webhook (signed (gateway_event ''charge.success'' ''dep_00aa'' 500)),
      Transfer OnInsert (to_wallet ''B-001'' 2000) user_A ''00ff'' 6 7]"
  have a: "balances_nonneg ledger0"
    by (simp add: balances_nonneg_def example_defs)
  have b: "list_all nonneg_event ?ops"
    by (simp add: example_defs)
  have c: "map (map balance \<circ> wallets) (commit_points accept_sig plain_str ?ops ledger0)
     = [[5000, 0], [5500, 0], [3500, 2000]]"
    by (simp add: deposit_to_wallet_def transfer_funds_def debit_def webhook_defs example_defs)
  from balances_never_negative[OF a b, of accept_sig plain_str] c
  show ?thesis by simp
qed

end
